theory Spec2Isabelle
  imports Complex_Main
begin

section \<open>The simulated exchange engine: position manager and simulation client\<close>

text \<open>
  A shallow embedding of \<^verbatim>\<open>agents/manager_position.py\<close>,
  \<^verbatim>\<open>agents/client_simulation.py\<close> and the \<^verbatim>\<open>Fee\<close> class of
  \<^verbatim>\<open>const/const.py\<close>. Python's \<^verbatim>\<open>float\<close> is modelled by \<^typ>\<open>real\<close>:
  the arithmetic is exact, rounding, infinities and NaN are not represented. Where the
  rounding of binary64 arithmetic decides a property, \<^verbatim>\<open>open\<close> has a second
  reading, \<open>open_float\<close>, in which every literal and every operation is rounded to
  the nearest binary64 value. Python's
  \<^verbatim>\<open>int\<close> is \<^typ>\<open>int\<close>, \<^verbatim>\<open>str\<close> is \<^typ>\<open>string\<close>. Mutation of
  \<^verbatim>\<open>self\<close> is explicit state passing: every method takes the object and returns
  the updated object next to its result.
\<close>

subsection \<open>Commission policy (\<^verbatim>\<open>const.Fee\<close>)\<close>

definition Fee_Maker :: real where
  "Fee_Maker = 0.0002"

definition Fee_Taker :: real where
  "Fee_Taker = 0.0005"

definition Fee_commission :: "real \<Rightarrow> real" where
  "Fee_commission amount = amount * Fee_Taker"

subsection \<open>Position (\<^verbatim>\<open>ManagerPosition\<close>)\<close>

text \<open>
  The field \<^verbatim>\<open>size\<close> is called \<open>size_pos\<close> here; the methods
  \<^verbatim>\<open>reset\<close>, \<^verbatim>\<open>update\<close>, \<^verbatim>\<open>open\<close>, \<^verbatim>\<open>close\<close> and
  \<^verbatim>\<open>commission\<close> carry the suffix \<open>_pos\<close>.
\<close>

record position =
  side :: int
  size_pos :: real
  entry_price :: real
  unrealized_pnl :: real
  holding_time :: int
  idle_time :: int
  capital :: real
  max_profit :: real
  max_loss :: real

definition init_pos :: "int \<Rightarrow> real \<Rightarrow> real \<Rightarrow> real \<Rightarrow> int \<Rightarrow> real \<Rightarrow> real \<Rightarrow> position" where
  "init_pos sd sz ep upnl ht mp ml =
     \<lparr>side = sd, size_pos = sz, entry_price = ep, unrealized_pnl = upnl,
      holding_time = ht, idle_time = 0, capital = 0, max_profit = mp, max_loss = ml\<rparr>"

definition reset_pos :: "position \<Rightarrow> position" where
  "reset_pos p =
     p\<lparr>side := 0, size_pos := 0, entry_price := 0, unrealized_pnl := 0,
       holding_time := 0, idle_time := 0, capital := 0, max_profit := 0, max_loss := 0\<rparr>"

definition update_pos :: "position \<Rightarrow> real \<Rightarrow> position" where
  "update_pos p current_price =
     (if side p = 0 then
        p\<lparr>size_pos := 0, entry_price := 0, unrealized_pnl := 0, capital := 0,
          holding_time := 0, idle_time := idle_time p + 1\<rparr>
      else
        let p1 = p\<lparr>idle_time := 0\<rparr>;
            p2 = (if side p1 = 1
                  then p1\<lparr>unrealized_pnl := (current_price - entry_price p1) * size_pos p1\<rparr>
                  else p1\<lparr>unrealized_pnl := (entry_price p1 - current_price) * size_pos p1\<rparr>);
            p3 = p2\<lparr>holding_time := holding_time p2 + 1\<rparr>
        in if unrealized_pnl p3 > max_profit p3 then p3\<lparr>max_profit := unrealized_pnl p3\<rparr>
           else if unrealized_pnl p3 < max_loss p3 then p3\<lparr>max_loss := unrealized_pnl p3\<rparr>
           else p3)"

text \<open>
  \<^verbatim>\<open>open(current_price, position_size, balance, side) -> (bool, float)\<close>: the result
  is the pair the method returns, followed by the object after the call.
\<close>

definition open_pos :: "position \<Rightarrow> real \<Rightarrow> real \<Rightarrow> real \<Rightarrow> int \<Rightarrow> bool \<times> real \<times> position" where
  "open_pos p current_price position_size balance sd =
     (if position_size \<le> 0.0000000001 then (False, balance, p)
      else
        let amount = position_size * current_price;
            commission = Fee_commission amount
        in if balance < commission + amount then (False, balance, p)
           else
             let balance1 = balance - commission - amount
             in (True, balance1,
                 p\<lparr>side := sd, size_pos := position_size, entry_price := current_price,
                   capital := amount + commission, unrealized_pnl := 0,
                   holding_time := 1, idle_time := 0, max_profit := 0, max_loss := 0\<rparr>))"

text \<open>
  \<^verbatim>\<open>close(current_price, balance) -> (float, float)\<close>. The source assigns
  \<^verbatim>\<open>balance = 0\<close> before \<^verbatim>\<open>realized_pnl = -balance\<close>; the two assignments
  are kept in that order.
\<close>

definition close_pos :: "position \<Rightarrow> real \<Rightarrow> real \<Rightarrow> real \<times> real \<times> position" where
  "close_pos p current_price balance =
     (let amount = size_pos p * current_price;
          realized_pnl = (if side p = 1 then (current_price - entry_price p) * size_pos p
                          else (entry_price p - current_price) * size_pos p);
          commission = Fee_commission amount;
          balance1 = balance + amount - commission;
          (balance2, realized_pnl2) =
             (if balance1 < 0 then (let balance0 = 0 in (balance0, - balance0))
              else (balance1, realized_pnl));
          p' = p\<lparr>side := 0, size_pos := 0, entry_price := 0, unrealized_pnl := 0,
                 capital := 0, holding_time := 0, idle_time := 1,
                 max_profit := 0, max_loss := 0\<rparr>
      in (realized_pnl2, balance2, p'))"

definition commission_pos :: "position \<Rightarrow> real \<Rightarrow> real" where
  "commission_pos p current_price =
     (if side p = 0 \<or> size_pos p = 0 then 0
      else let amount = size_pos p * current_price in Fee_commission amount)"

subsection \<open>Binary64 arithmetic and \<^verbatim>\<open>open\<close> in it\<close>

text \<open>
  Python's \<^verbatim>\<open>float\<close> is IEEE 754 binary64: a finite value is an integer
  multiple of a power of two with a significand of at most 53 bits, and a literal or the
  exact result of \<^verbatim>\<open>+\<close>, \<^verbatim>\<open>-\<close> or \<^verbatim>\<open>*\<close> is replaced by the
  nearest such value, a tie going to the even significand. \<open>fl\<close> is that rounding
  on the reals: \<open>exponent_of x\<close> is the \<open>e\<close> with \<open>2^e \<le> |x| < 2^(e+1)\<close>, the
  spacing of the values around \<open>x\<close> is \<open>2^(e - 52)\<close>, and never below \<open>2^-1074\<close>, the
  spacing of the subnormal values. Overflow to infinity (results of magnitude
  \<open>2^1024\<close> and above) and NaN are not represented.
\<close>

fun bit_length :: "nat \<Rightarrow> nat" where
  "bit_length n = (if n = 0 then 0 else Suc (bit_length (n div 2)))"

declare bit_length.simps [simp del]

definition exponent_of :: "real \<Rightarrow> int" where
  "exponent_of x =
     (if 1 \<le> \<bar>x\<bar> then int (bit_length (nat \<lfloor>\<bar>x\<bar>\<rfloor>)) - 1
      else - int (bit_length (nat (\<lceil>1 / \<bar>x\<bar>\<rceil> - 1))))"

definition round_half_even :: "real \<Rightarrow> int" where
  "round_half_even y =
     (let f = \<lfloor>y\<rfloor>; r = y - of_int f
      in if r < 1 / 2 then f else if 1 / 2 < r then f + 1
         else if even f then f else f + 1)"

definition pow2 :: "int \<Rightarrow> real" where
  "pow2 e = (if 0 \<le> e then 2 ^ nat e else 1 / 2 ^ nat (- e))"

definition fl :: "real \<Rightarrow> real" where
  "fl x =
     (if x = 0 then 0
      else let q = pow2 (max (exponent_of x - 52) (- 1074))
           in of_int (round_half_even (x / q)) * q)"

text \<open>
  \<^verbatim>\<open>Fee.Taker\<close>, \<^verbatim>\<open>Fee.commission\<close> and \<^verbatim>\<open>ManagerPosition.open\<close> in
  binary64: the same statements as \<open>Fee_Taker\<close>, \<open>Fee_commission\<close> and
  \<open>open_pos\<close>, with each literal and each arithmetic result rounded by \<open>fl\<close>.
  Comparisons are exact. The arguments are binary64 values.
\<close>

definition Fee_Taker_float :: real where
  "Fee_Taker_float = fl 0.0005"

definition Fee_commission_float :: "real \<Rightarrow> real" where
  "Fee_commission_float amount = fl (amount * Fee_Taker_float)"

definition open_float :: "position \<Rightarrow> real \<Rightarrow> real \<Rightarrow> real \<Rightarrow> int \<Rightarrow> bool \<times> real \<times> position" where
  "open_float p current_price position_size balance sd =
     (if position_size \<le> fl 0.0000000001 then (False, balance, p)
      else
        let amount = fl (position_size * current_price);
            commission = Fee_commission_float amount
        in if balance < fl (commission + amount) then (False, balance, p)
           else
             let balance1 = fl (fl (balance - commission) - amount)
             in (True, balance1,
                 p\<lparr>side := sd, size_pos := position_size, entry_price := current_price,
                   capital := fl (amount + commission), unrealized_pnl := 0,
                   holding_time := 1, idle_time := 0, max_profit := 0, max_loss := 0\<rparr>))"

subsection \<open>Simulation client (\<^verbatim>\<open>ClientSimulation\<close>)\<close>

text \<open>
  The string constants of \<^verbatim>\<open>binance.enums\<close> that the client imports.
\<close>

definition SIDE_BUY :: string where
  "SIDE_BUY = ''BUY''"

definition SIDE_SELL :: string where
  "SIDE_SELL = ''SELL''"

definition ORDER_TYPE_MARKET :: string where
  "ORDER_TYPE_MARKET = ''MARKET''"

definition ORDER_TYPE_LIMIT :: string where
  "ORDER_TYPE_LIMIT = ''LIMIT''"

text \<open>
  The dictionaries the client builds, as records: one field per key, prefixed by
  \<open>sp_\<close> (an entry of \<^verbatim>\<open>self.positions\<close>), \<open>o_\<close> (an order) or
  \<open>t_\<close> (a trade). A market order has no \<^verbatim>\<open>timeInForce\<close> key.
\<close>

record sim_position =
  sp_size :: real
  sp_entry_price :: real

record order =
  o_orderId :: string
  o_symbol :: string
  o_side :: string
  o_type :: string
  o_quantity :: real
  o_price :: real
  o_timeInForce :: "string option"
  o_reduceOnly :: bool
  o_status :: string
  o_time :: int

record trade =
  t_symbol :: string
  t_id :: string
  t_orderId :: string
  t_side :: string
  t_price :: real
  t_quantity :: real
  t_commission :: real
  t_time :: int

text \<open>
  The account state of the client: \<^verbatim>\<open>self.balance\<close>, \<^verbatim>\<open>self.positions\<close>,
  \<^verbatim>\<open>self.orders\<close>, \<^verbatim>\<open>self.trades\<close> and \<^verbatim>\<open>self.market_prices\<close>.
  The configuration fields (API keys, leverage, margin type, window size) are not read by
  the operations below.
\<close>

record client =
  balance :: real
  positions :: "string \<rightharpoonup> sim_position"
  orders :: "order list"
  trades :: "trade list"
  market_prices :: "string \<rightharpoonup> real"

definition calculate_commission :: "real \<Rightarrow> real" where
  "calculate_commission order_value = order_value * Fee_Taker"

text \<open>
  \<^verbatim>\<open>_update_position(symbol, side, quantity, price)\<close>. A symbol missing from
  \<^verbatim>\<open>self.positions\<close> is entered with size 0 and entry price 0 first. Every side
  other than \<^verbatim>\<open>SIDE_BUY\<close> takes the sell branch. The log line is not modelled.
\<close>

definition update_position :: "string \<Rightarrow> string \<Rightarrow> real \<Rightarrow> real \<Rightarrow> client \<Rightarrow> client" where
  "update_position symbol sd quantity price s =
     (let position = (case positions s symbol of
                        None \<Rightarrow> \<lparr>sp_size = 0, sp_entry_price = 0\<rparr>
                      | Some pos \<Rightarrow> pos);
          old_size = sp_size position;
          new_size = (if sd = SIDE_BUY then old_size + quantity else old_size - quantity);
          position1 =
            (if old_size * new_size \<le> 0 \<or> new_size = 0
             then position\<lparr>sp_entry_price := (if new_size \<noteq> 0 then price else 0)\<rparr>
             else position\<lparr>sp_entry_price :=
                    (\<bar>old_size\<bar> * sp_entry_price position + quantity * price) / \<bar>new_size\<bar>\<rparr>);
          position2 = position1\<lparr>sp_size := new_size\<rparr>;
          commission = calculate_commission (price * quantity)
      in s\<lparr>positions := (positions s)(symbol \<mapsto> position2),
           balance := balance s - commission\<rparr>)"

text \<open>
  \<^verbatim>\<open>place_market_order(symbol, side, quantity, reduce_only)\<close>. The values drawn from
  \<^verbatim>\<open>uuid.uuid4()\<close> and \<^verbatim>\<open>datetime.now()\<close> are arguments: \<open>order_id\<close>,
  \<open>now\<close> and \<open>trade_id\<close>. The empty dictionary \<^verbatim>\<open>{}\<close> is \<open>None\<close>.
  The test \<^verbatim>\<open>if not price\<close> holds for a missing price and for the price 0.
\<close>

definition place_market_order ::
  "string \<Rightarrow> int \<Rightarrow> string \<Rightarrow> string \<Rightarrow> string \<Rightarrow> real \<Rightarrow> bool \<Rightarrow> client \<Rightarrow> order option \<times> client" where
  "place_market_order order_id now trade_id symbol sd quantity reduce_only s =
     (case market_prices s symbol of
        None \<Rightarrow> (None, s)
      | Some price \<Rightarrow>
          if price = 0 then (None, s)
          else
            let od = \<lparr>o_orderId = order_id, o_symbol = symbol, o_side = sd,
                      o_type = ORDER_TYPE_MARKET, o_quantity = quantity, o_price = price,
                      o_timeInForce = None, o_reduceOnly = reduce_only,
                      o_status = ''FILLED'', o_time = now\<rparr>;
                s1 = update_position symbol sd quantity price s;
                s2 = s1\<lparr>orders := orders s1 @ [od]\<rparr>;
                s3 = s2\<lparr>trades := trades s2 @
                        [\<lparr>t_symbol = symbol, t_id = trade_id, t_orderId = order_id,
                          t_side = sd, t_price = price, t_quantity = quantity,
                          t_commission = calculate_commission (price * quantity),
                          t_time = o_time od\<rparr>]\<rparr>
            in (Some od, s3))"


text \<open>
  \<^verbatim>\<open>_check_limit_orders(symbol, price)\<close>. \<open>check_order\<close> is the body of the loop
  for one order: it returns the order (whose status the body may have set) and the
  client after the body. \<open>gen n\<close> is the pair of \<^verbatim>\<open>uuid.uuid4()\<close> and
  \<^verbatim>\<open>datetime.now()\<close> values drawn for the trade appended to a history of \<open>n\<close>
  trades. The loop visits \<^verbatim>\<open>self.orders\<close> front to back; the body never adds or
  removes an order.
\<close>

definition check_order :: "(nat \<Rightarrow> string \<times> int) \<Rightarrow> string \<Rightarrow> real \<Rightarrow> order \<Rightarrow> client \<Rightarrow> order \<times> client" where
  "check_order gen symbol price od s =
     (if o_symbol od = symbol \<and> o_status od = ''NEW'' \<and> o_type od = ORDER_TYPE_LIMIT then
        if (o_side od = SIDE_BUY \<and> price \<le> o_price od) \<or>
           (o_side od = SIDE_SELL \<and> price \<ge> o_price od) then
          let od1 = od\<lparr>o_status := ''FILLED''\<rparr>;
              s1 = update_position symbol (o_side od1) (o_quantity od1) (o_price od1) s;
              s2 = s1\<lparr>trades := trades s1 @
                      [\<lparr>t_symbol = symbol, t_id = fst (gen (length (trades s1))),
                        t_orderId = o_orderId od1, t_side = o_side od1, t_price = o_price od1,
                        t_quantity = o_quantity od1,
                        t_commission = calculate_commission (o_price od1 * o_quantity od1),
                        t_time = snd (gen (length (trades s1)))\<rparr>]\<rparr>
          in (od1, s2)
        else (od, s)
      else (od, s))"

fun check_orders :: "(nat \<Rightarrow> string \<times> int) \<Rightarrow> string \<Rightarrow> real \<Rightarrow> order list \<Rightarrow> client \<Rightarrow> order list \<times> client" where
  "check_orders gen symbol price [] s = ([], s)"
| "check_orders gen symbol price (od # ods) s =
     (case check_order gen symbol price od s of
        (od1, s1) \<Rightarrow>
          (case check_orders gen symbol price ods s1 of
             (ods1, s2) \<Rightarrow> (od1 # ods1, s2)))"

definition check_limit_orders :: "(nat \<Rightarrow> string \<times> int) \<Rightarrow> string \<Rightarrow> real \<Rightarrow> client \<Rightarrow> client" where
  "check_limit_orders gen symbol price s =
     (case check_orders gen symbol price (orders s) s of
        (ods1, s1) \<Rightarrow> s1\<lparr>orders := ods1\<rparr>)"

definition update_market_price :: "(nat \<Rightarrow> string \<times> int) \<Rightarrow> string \<Rightarrow> real \<Rightarrow> client \<Rightarrow> client" where
  "update_market_price gen symbol price s =
     check_limit_orders gen symbol price
       (s\<lparr>market_prices := (market_prices s)(symbol \<mapsto> price)\<rparr>)"

text \<open>
  The client as \<^verbatim>\<open>__init__\<close> leaves it, for a configured
  \<^verbatim>\<open>initial_balance\<close>.
\<close>

definition init_client :: "real \<Rightarrow> client" where
  "init_client initial_balance =
     \<lparr>balance = initial_balance, positions = Map.empty, orders = [], trades = [],
      market_prices = Map.empty\<rparr>"

subsection \<open>Predicates and inputs used by the properties\<close>

text \<open>
  The flat invariant in the specification's words: \<open>side = 0\<close> iff \<open>size = 0\<close> iff
  \<open>entryPrice = 0\<close>.
\<close>

definition flat_inv :: "position \<Rightarrow> bool" where
  "flat_inv p = (((side p = 0) = (size_pos p = 0)) \<and> ((size_pos p = 0) = (entry_price p = 0)))"

text \<open>
  The two tests of the loop body of \<^verbatim>\<open>_check_limit_orders\<close>, named: an order is
  \<open>resting\<close> for a symbol when the outer test holds for it, and the tick price
  \<open>crosses\<close> its limit when the inner test does. \<open>fill_trade gen n od\<close> is the
  trade record the body appends for \<open>od\<close> to a history of \<open>n\<close> trades.
\<close>

definition resting :: "string \<Rightarrow> order \<Rightarrow> bool" where
  "resting symbol od =
     (o_symbol od = symbol \<and> o_status od = ''NEW'' \<and> o_type od = ORDER_TYPE_LIMIT)"

definition crosses :: "real \<Rightarrow> order \<Rightarrow> bool" where
  "crosses price od =
     ((o_side od = SIDE_BUY \<and> price \<le> o_price od) \<or>
      (o_side od = SIDE_SELL \<and> price \<ge> o_price od))"

definition fill_trade :: "(nat \<Rightarrow> string \<times> int) \<Rightarrow> nat \<Rightarrow> order \<Rightarrow> trade" where
  "fill_trade gen n od =
     \<lparr>t_symbol = o_symbol od, t_id = fst (gen n), t_orderId = o_orderId od,
      t_side = o_side od, t_price = o_price od, t_quantity = o_quantity od,
      t_commission = calculate_commission (o_price od * o_quantity od),
      t_time = snd (gen n)\<rparr>"

text \<open>
  \<open>exec_fill gen symbol c od\<close> is the client after the body of the loop has filled
  \<open>od\<close> on the client \<open>c\<close>: the position of \<open>symbol\<close> and the balance updated by
  \<^verbatim>\<open>_update_position\<close> with the order's side, quantity and own limit price, and the
  trade of the order appended.
\<close>

definition exec_fill :: "(nat \<Rightarrow> string \<times> int) \<Rightarrow> string \<Rightarrow> client \<Rightarrow> order \<Rightarrow> client" where
  "exec_fill gen symbol c od =
     (update_position symbol (o_side od) (o_quantity od) (o_price od) c)
       \<lparr>trades := trades c @ [fill_trade gen (length (trades c)) od]\<rparr>"

text \<open>
  Concrete inputs: the position \<^verbatim>\<open>ManagerPosition()\<close> builds, a long position of
  size 1 entered at 100, a source of identifiers and timestamps, and two limit orders.
\<close>

definition flat_pos :: position where
  "flat_pos = init_pos 0 0 0 0 0 0 0"

definition long_100 :: position where
  "long_100 = init_pos 1 1 100 0 1 0 0"

definition gen0 :: "nat \<Rightarrow> string \<times> int" where
  "gen0 n = (''trade'', 0)"

definition buy_at_100 :: order where
  "buy_at_100 =
     \<lparr>o_orderId = ''a'', o_symbol = ''BTCUSDT'', o_side = SIDE_BUY, o_type = ORDER_TYPE_LIMIT,
      o_quantity = 2, o_price = 100, o_timeInForce = Some ''GTC'', o_reduceOnly = False,
      o_status = ''NEW'', o_time = 0\<rparr>"

definition sell_at_90 :: order where
  "sell_at_90 =
     \<lparr>o_orderId = ''b'', o_symbol = ''BTCUSDT'', o_side = SIDE_SELL, o_type = ORDER_TYPE_LIMIT,
      o_quantity = 1, o_price = 90, o_timeInForce = Some ''GTC'', o_reduceOnly = False,
      o_status = ''NEW'', o_time = 1\<rparr>"

definition client_two_orders :: client where
  "client_two_orders = (init_client 10000)\<lparr>orders := [buy_at_100, sell_at_90]\<rparr>"

text \<open>
  Two clients reached from \<^verbatim>\<open>__init__\<close> by one price tick: one with initial
  balance 10000 after a tick at price 0, one with initial balance 1 after a tick at
  price 100.
\<close>

definition client_tick_zero :: client where
  "client_tick_zero = update_market_price gen0 ''BTCUSDT'' 0 (init_client 10000)"

definition client_tick_100 :: client where
  "client_tick_100 = update_market_price gen0 ''BTCUSDT'' 100 (init_client 1)"

section \<open>Properties\<close>

subsection \<open>Helper lemmas\<close>

lemma bit_length_numeral: "bit_length (numeral k) = Suc (bit_length (numeral k div 2))"
  by (subst bit_length.simps) simp

lemma bit_length_small: "bit_length 0 = 0" "bit_length (Suc 0) = 1"
  by (simp_all add: bit_length.simps)

lemmas fl_eval =
  fl_def exponent_of_def bit_length_numeral bit_length_small pow2_def round_half_even_def Let_def

lemma bit_length_bounds:
  "0 < n \<Longrightarrow> 2 ^ (bit_length n - 1) \<le> n \<and> n < 2 ^ bit_length n"
proof (induction n rule: bit_length.induct)
  case (1 n)
  show ?case
  proof (cases "n div 2 = 0")
    case True
    with "1.prems" have "n = 1" by (simp add: div_eq_0_iff)
    then show ?thesis by (simp add: bit_length.simps)
  next
    case False
    then have pos: "0 < n div 2" by simp
    from "1.prems" have n0: "n \<noteq> 0" by simp
    from "1.IH" [OF n0 pos] have lo: "2 ^ (bit_length (n div 2) - 1) \<le> n div 2"
      and hi: "n div 2 < 2 ^ bit_length (n div 2)" by simp_all
    have bl: "bit_length n = Suc (bit_length (n div 2))"
      using n0 by (subst bit_length.simps) simp
    from pos have "0 < bit_length (n div 2)"
      by (subst bit_length.simps) simp
    then obtain k where k: "bit_length (n div 2) = Suc k"
      by (cases "bit_length (n div 2)") auto
    from lo k have "2 ^ k \<le> n div 2" by simp
    then have "2 * 2 ^ k \<le> n" by linarith
    moreover from hi have "n < 2 * 2 ^ bit_length (n div 2)" by linarith
    ultimately show ?thesis by (simp add: bl k)
  qed
qed

lemma real_pow_le_nat: "(2::nat) ^ k \<le> n \<Longrightarrow> (2::real) ^ k \<le> real n"
proof -
  assume "(2::nat) ^ k \<le> n"
  then have "real ((2::nat) ^ k) \<le> real n" by (rule of_nat_mono)
  then show ?thesis by simp
qed

lemma real_succ_le_pow: "n < (2::nat) ^ k \<Longrightarrow> real n + 1 \<le> (2::real) ^ k"
proof -
  assume "n < (2::nat) ^ k"
  then have "Suc n \<le> 2 ^ k" by simp
  then have "real (Suc n) \<le> real ((2::nat) ^ k)" by (rule of_nat_mono)
  then show ?thesis by simp
qed

text \<open>\<open>exponent_of x\<close> is the binary exponent of \<open>x\<close>.\<close>

lemma exponent_of_bounds:
  assumes "x \<noteq> 0"
  shows "pow2 (exponent_of x) \<le> \<bar>x\<bar> \<and> \<bar>x\<bar> < pow2 (exponent_of x + 1)"
proof (cases "1 \<le> \<bar>x\<bar>")
  case True
  define n where "n = nat \<lfloor>\<bar>x\<bar>\<rfloor>"
  from True have fl1: "1 \<le> \<lfloor>\<bar>x\<bar>\<rfloor>" by (simp add: le_floor_iff)
  then have n: "0 < n" by (simp add: n_def)
  from fl1 have rn: "real n = of_int \<lfloor>\<bar>x\<bar>\<rfloor>" by (simp add: n_def)
  have nx: "real n \<le> \<bar>x\<bar>" "\<bar>x\<bar> < real n + 1"
    unfolding rn using floor_correct [of "\<bar>x\<bar>"] by simp_all
  from bit_length_bounds [OF n] have lo: "2 ^ (bit_length n - 1) \<le> n"
    and hi: "n < 2 ^ bit_length n" by simp_all
  from n hi have bpos: "0 < bit_length n" by (cases "bit_length n") auto
  from real_pow_le_nat [OF lo] nx have a: "(2::real) ^ (bit_length n - 1) \<le> \<bar>x\<bar>"
    by linarith
  from real_succ_le_pow [OF hi] nx have b: "\<bar>x\<bar> < 2 ^ bit_length n" by linarith
  have e: "exponent_of x = int (bit_length n) - 1"
    using True by (simp add: exponent_of_def n_def)
  from bpos have "nat (int (bit_length n) - 1) = bit_length n - 1" by simp
  with a b bpos show ?thesis by (simp add: e pow2_def)
next
  case False
  define y where "y = 1 / \<bar>x\<bar>"
  have xpos: "0 < \<bar>x\<bar>" using assms by simp
  from False xpos have y1: "1 < y" by (simp add: y_def)
  define n where "n = nat (\<lceil>y\<rceil> - 1)"
  from y1 have c2: "2 \<le> \<lceil>y\<rceil>" by (simp add: less_ceiling_iff)
  then have n: "0 < n" unfolding n_def by simp
  from c2 have rn: "real n = of_int \<lceil>y\<rceil> - 1" by (simp add: n_def)
  have ny: "real n < y" "y \<le> real n + 1"
    unfolding rn using ceiling_correct [of y] by simp_all
  from bit_length_bounds [OF n] have lo: "2 ^ (bit_length n - 1) \<le> n"
    and hi: "n < 2 ^ bit_length n" by simp_all
  from n hi have bpos: "0 < bit_length n" by (cases "bit_length n") auto
  from real_pow_le_nat [OF lo] ny have a: "(2::real) ^ (bit_length n - 1) < y" by linarith
  from real_succ_le_pow [OF hi] ny have b: "y \<le> 2 ^ bit_length n" by linarith
  have e: "exponent_of x = - int (bit_length n)"
    using False by (simp add: exponent_of_def n_def y_def)
  have p1: "(0::real) < 2 ^ bit_length n" and p2: "(0::real) < 2 ^ (bit_length n - 1)"
    by simp_all
  from b have "1 \<le> 2 ^ bit_length n * \<bar>x\<bar>"
    unfolding y_def using xpos by (simp add: pos_divide_le_eq)
  then have lo': "1 / 2 ^ bit_length n \<le> \<bar>x\<bar>"
    using p1 by (simp add: pos_divide_le_eq mult.commute)
  from a have "2 ^ (bit_length n - 1) * \<bar>x\<bar> < 1"
    unfolding y_def using xpos by (simp add: pos_less_divide_eq)
  then have hi': "\<bar>x\<bar> < 1 / 2 ^ (bit_length n - 1)"
    using p2 by (simp add: pos_less_divide_eq mult.commute)
  have "pow2 (exponent_of x + 1) = 1 / 2 ^ (bit_length n - 1)"
    using bpos by (cases "bit_length n") (auto simp: e pow2_def)
  moreover have "pow2 (exponent_of x) = 1 / 2 ^ bit_length n"
    using bpos by (simp add: e pow2_def)
  ultimately show ?thesis using lo' hi' by simp
qed

text \<open>No integer is nearer to \<open>y\<close> than \<open>round_half_even y\<close>.\<close>

lemma round_half_even_nearest:
  "\<bar>of_int (round_half_even y) - y\<bar> \<le> \<bar>of_int m - y\<bar>"
proof -
  define F :: real where "F = of_int \<lfloor>y\<rfloor>"
  define M :: real where "M = of_int m"
  have f: "F \<le> y" "y < F + 1" unfolding F_def by linarith+
  have "m \<le> \<lfloor>y\<rfloor> \<or> \<lfloor>y\<rfloor> + 1 \<le> m" by linarith
  then have m: "M \<le> F \<or> F + 1 \<le> M"
    unfolding F_def M_def by (metis of_int_le_iff of_int_add of_int_1)
  have "(of_int (round_half_even y) = F \<and> y - F \<le> 1 / 2) \<or>
        (of_int (round_half_even y) = F + 1 \<and> 1 / 2 \<le> y - F)"
    by (auto simp: round_half_even_def Let_def F_def)
  with f m show ?thesis unfolding M_def [symmetric] by (auto simp: abs_if)
qed

lemma pow2_pos: "0 < pow2 e"
  by (simp add: pow2_def)

text \<open>
  No multiple of the spacing around \<open>x\<close> is nearer to \<open>x\<close> than \<open>fl x\<close>.
\<close>

lemma fl_nearest:
  "\<bar>fl x - x\<bar> \<le> \<bar>of_int m * pow2 (max (exponent_of x - 52) (- 1074)) - x\<bar>"
proof (cases "x = 0")
  case True
  then show ?thesis by (simp add: fl_def)
next
  case False
  define q where "q = pow2 (max (exponent_of x - 52) (- 1074))"
  have q: "0 < q" unfolding q_def by (rule pow2_pos)
  have r: "of_int k * q - x = q * (of_int k - x / q)" for k :: int
    using q by (simp add: field_simps)
  have "\<bar>of_int (round_half_even (x / q)) * q - x\<bar>
      = q * \<bar>of_int (round_half_even (x / q)) - x / q\<bar>"
    using q by (simp add: r abs_mult)
  also have "\<dots> \<le> q * \<bar>of_int m - x / q\<bar>"
    using q round_half_even_nearest [of "x / q" m] by simp
  also have "\<dots> = \<bar>of_int m * q - x\<bar>"
    using q by (simp add: r abs_mult)
  finally show ?thesis using False by (simp add: fl_def Let_def q_def)
qed

lemma update_position_balance:
  "balance (update_position symbol sd quantity price s) = balance s - price * quantity * Fee_Taker"
  by (simp add: update_position_def Let_def calculate_commission_def)

lemma update_position_frame:
  "trades (update_position symbol sd quantity price s) = trades s"
  "orders (update_position symbol sd quantity price s) = orders s"
  "market_prices (update_position symbol sd quantity price s) = market_prices s"
  by (simp_all add: update_position_def Let_def)

lemma check_order_skip:
  "\<not> (resting symbol od \<and> crosses price od) \<Longrightarrow> check_order gen symbol price od s = (od, s)"
  by (auto simp: check_order_def resting_def crosses_def)

lemma check_order_fill:
  "resting symbol od \<Longrightarrow> crosses price od \<Longrightarrow>
   check_order gen symbol price od s =
     (od\<lparr>o_status := ''FILLED''\<rparr>,
      (update_position symbol (o_side od) (o_quantity od) (o_price od) s)
        \<lparr>trades := trades s @ [fill_trade gen (length (trades s)) od]\<rparr>)"
  by (auto simp: check_order_def resting_def crosses_def Let_def update_position_frame
      fill_trade_def)

lemma check_orders_fst:
  "fst (check_orders gen symbol price ods s) =
     map (\<lambda>od. if resting symbol od \<and> crosses price od then od\<lparr>o_status := ''FILLED''\<rparr> else od) ods"
proof (induction ods arbitrary: s)
  case Nil
  show ?case by simp
next
  case (Cons od ods)
  show ?case
  proof (cases "resting symbol od \<and> crosses price od")
    case True
    then show ?thesis using Cons.IH by (simp add: check_order_fill split_beta)
  next
    case False
    then show ?thesis using Cons.IH by (auto simp: check_order_skip split_beta)
  qed
qed

lemma check_orders_trades:
  "map (\<lambda>t. (t_orderId t, t_side t, t_price t, t_quantity t))
       (trades (snd (check_orders gen symbol price ods s))) =
   map (\<lambda>t. (t_orderId t, t_side t, t_price t, t_quantity t)) (trades s) @
   map (\<lambda>od. (o_orderId od, o_side od, o_price od, o_quantity od))
       (filter (\<lambda>od. resting symbol od \<and> crosses price od) ods)"
proof (induction ods arbitrary: s)
  case Nil
  show ?case by simp
next
  case (Cons od ods)
  show ?case
  proof (cases "resting symbol od \<and> crosses price od")
    case True
    then show ?thesis using Cons.IH by (simp add: check_order_fill fill_trade_def split_beta)
  next
    case False
    then show ?thesis using Cons.IH by (auto simp: check_order_skip split_beta)
  qed
qed

lemma check_orders_balance:
  "balance (snd (check_orders gen symbol price ods s)) =
     balance s - sum_list (map (\<lambda>od. o_price od * o_quantity od * Fee_Taker)
                             (filter (\<lambda>od. resting symbol od \<and> crosses price od) ods))"
proof (induction ods arbitrary: s)
  case Nil
  show ?case by simp
next
  case (Cons od ods)
  show ?case
  proof (cases "resting symbol od \<and> crosses price od")
    case True
    then show ?thesis using Cons.IH
      by (simp add: check_order_fill update_position_balance split_beta)
  next
    case False
    then show ?thesis using Cons.IH by (auto simp: check_order_skip split_beta)
  qed
qed

lemma update_market_price_orders:
  "orders (update_market_price gen symbol price s) =
     map (\<lambda>od. if resting symbol od \<and> crosses price od then od\<lparr>o_status := ''FILLED''\<rparr> else od)
         (orders s)"
  using check_orders_fst [of gen symbol price "orders s" "s\<lparr>market_prices := (market_prices s)(symbol \<mapsto> price)\<rparr>"]
  by (simp add: update_market_price_def check_limit_orders_def split_beta)

lemma update_market_price_trades:
  "map (\<lambda>t. (t_orderId t, t_side t, t_price t, t_quantity t))
       (trades (update_market_price gen symbol price s)) =
   map (\<lambda>t. (t_orderId t, t_side t, t_price t, t_quantity t)) (trades s) @
   map (\<lambda>od. (o_orderId od, o_side od, o_price od, o_quantity od))
       (filter (\<lambda>od. resting symbol od \<and> crosses price od) (orders s))"
  using check_orders_trades [of gen symbol price "orders s" "s\<lparr>market_prices := (market_prices s)(symbol \<mapsto> price)\<rparr>"]
  by (simp add: update_market_price_def check_limit_orders_def split_beta)

lemma update_market_price_balance:
  "balance (update_market_price gen symbol price s) =
     balance s - sum_list (map (\<lambda>od. o_price od * o_quantity od * Fee_Taker)
                             (filter (\<lambda>od. resting symbol od \<and> crosses price od) (orders s)))"
  using check_orders_balance [of gen symbol price "orders s" "s\<lparr>market_prices := (market_prices s)(symbol \<mapsto> price)\<rparr>"]
  by (simp add: update_market_price_def check_limit_orders_def split_beta)

lemma check_order_snd:
  "snd (check_order gen symbol price od s) =
     (if resting symbol od \<and> crosses price od then exec_fill gen symbol s od else s)"
  by (auto simp: check_order_fill check_order_skip exec_fill_def)

lemma check_orders_snd:
  "snd (check_orders gen symbol price ods s) =
     foldl (exec_fill gen symbol) s (filter (\<lambda>od. resting symbol od \<and> crosses price od) ods)"
proof (induction ods arbitrary: s)
  case Nil
  show ?case by simp
next
  case (Cons od ods)
  have "snd (check_orders gen symbol price (od # ods) s) =
      snd (check_orders gen symbol price ods (snd (check_order gen symbol price od s)))"
    by (simp add: split_beta)
  also have "\<dots> = foldl (exec_fill gen symbol) (snd (check_order gen symbol price od s))
      (filter (\<lambda>od. resting symbol od \<and> crosses price od) ods)"
    by (rule Cons.IH)
  finally show ?case by (simp add: check_order_snd)
qed

lemma update_market_price_state:
  "update_market_price gen symbol price s =
     (foldl (exec_fill gen symbol) (s\<lparr>market_prices := (market_prices s)(symbol \<mapsto> price)\<rparr>)
        (filter (\<lambda>od. resting symbol od \<and> crosses price od) (orders s)))
     \<lparr>orders := map (\<lambda>od. if resting symbol od \<and> crosses price od
                            then od\<lparr>o_status := ''FILLED''\<rparr> else od) (orders s)\<rparr>"
  using check_orders_fst [of gen symbol price "orders s"
      "s\<lparr>market_prices := (market_prices s)(symbol \<mapsto> price)\<rparr>"]
    check_orders_snd [of gen symbol price "orders s"
      "s\<lparr>market_prices := (market_prices s)(symbol \<mapsto> price)\<rparr>"]
  by (simp add: update_market_price_def check_limit_orders_def split_beta)

lemma exec_fill_orders_update:
  "exec_fill gen symbol (c\<lparr>orders := ods\<rparr>) od = (exec_fill gen symbol c od)\<lparr>orders := ods\<rparr>"
  by (simp add: exec_fill_def update_position_def Let_def)

lemma foldl_exec_fill_orders_update:
  "foldl (exec_fill gen symbol) (c\<lparr>orders := ods\<rparr>) fs =
     (foldl (exec_fill gen symbol) c fs)\<lparr>orders := ods\<rparr>"
  by (induction fs arbitrary: c) (simp_all add: exec_fill_orders_update)

lemma filter_without_nth:
  "i < length xs \<Longrightarrow> \<not> P (xs ! i) \<Longrightarrow> filter P (take i xs @ drop (Suc i) xs) = filter P xs"
proof -
  assume i: "i < length xs" and n: "\<not> P (xs ! i)"
  from i have "xs = take i xs @ xs ! i # drop (Suc i) xs" by (rule id_take_nth_drop)
  then have "filter P xs = filter P (take i xs @ xs ! i # drop (Suc i) xs)" by simp
  with n show ?thesis by simp
qed

lemma filter_split_nth:
  "i < length xs \<Longrightarrow>
   filter P xs = filter P (take i xs) @ filter P [xs ! i] @ filter P (drop (Suc i) xs)"
proof -
  assume i: "i < length xs"
  from i have "xs = take i xs @ xs ! i # drop (Suc i) xs" by (rule id_take_nth_drop)
  then have "filter P xs = filter P (take i xs @ xs ! i # drop (Suc i) xs)" by simp
  then show ?thesis by simp
qed

subsection \<open>Close: the balance floor\<close>

text \<open>
  Claim C1. \<^verbatim>\<open>close\<close> computes the new balance as
  \<open>balance + size * currentPrice - commission\<close>; when that value is negative the
  returned balance is 0 and the claim expects the reported realized PnL to be the negation
  of the value before the floor. Closing the long position of size 1 entered at 100, at
  price 100 and with balance -200, the value before the floor is -100.05, the returned
  balance is 0, and the reported realized PnL is 0, not 100.05: the source negates the
  balance after it has set it to 0.
\<close>

theorem C1_close_floor_reports_zero:
  "- 200 + size_pos long_100 * 100 - Fee_commission (size_pos long_100 * 100) = - 100.05
   \<and> fst (snd (close_pos long_100 100 (- 200))) = 0
   \<and> fst (close_pos long_100 100 (- 200)) = 0
   \<and> fst (close_pos long_100 100 (- 200)) \<noteq> 100.05"
  by (simp add: close_pos_def long_100_def init_pos_def Fee_commission_def Fee_Taker_def)

subsection \<open>Open on an existing position\<close>

text \<open>
  Claim C2, as amended. \<^verbatim>\<open>open\<close> does not average: an accepted call overwrites the
  position with the new fill, so the entry price is \<open>P2\<close> and the size is \<open>S2\<close>
  whatever the position held before, and a rejected call leaves the position as it was.
  The size-weighted average \<open>(S1 * P1 + S2 * P2) / (S1 + S2)\<close> is what the simulation
  client's \<^verbatim>\<open>_update_position\<close> stores for a buy fill of quantity \<open>S2 > 0\<close> at
  \<open>P2\<close> on a position of size \<open>S1 > 0\<close> entered at \<open>P1\<close>.
\<close>

theorem C2_open_overwrites_client_averages:
  "(fst (open_pos p P2 S2 bal sd) \<longrightarrow>
      entry_price (snd (snd (open_pos p P2 S2 bal sd))) = P2 \<and>
      size_pos (snd (snd (open_pos p P2 S2 bal sd))) = S2 \<and>
      side (snd (snd (open_pos p P2 S2 bal sd))) = sd)
   \<and> (\<not> fst (open_pos p P2 S2 bal sd) \<longrightarrow> snd (snd (open_pos p P2 S2 bal sd)) = p)
   \<and> (0 < S1 \<and> 0 < S2 \<and> positions s symbol = Some \<lparr>sp_size = S1, sp_entry_price = P1\<rparr> \<longrightarrow>
        positions (update_position symbol SIDE_BUY S2 P2 s) symbol =
          Some \<lparr>sp_size = S1 + S2, sp_entry_price = (S1 * P1 + S2 * P2) / (S1 + S2)\<rparr>)"
proof (intro conjI impI)
  assume "fst (open_pos p P2 S2 bal sd)"
  then show "entry_price (snd (snd (open_pos p P2 S2 bal sd))) = P2"
    and "size_pos (snd (snd (open_pos p P2 S2 bal sd))) = S2"
    and "side (snd (snd (open_pos p P2 S2 bal sd))) = sd"
    by (auto simp: open_pos_def Let_def split: if_splits)
next
  assume "\<not> fst (open_pos p P2 S2 bal sd)"
  then show "snd (snd (open_pos p P2 S2 bal sd)) = p"
    by (auto simp: open_pos_def Let_def split: if_splits)
next
  assume h: "0 < S1 \<and> 0 < S2 \<and> positions s symbol = Some \<lparr>sp_size = S1, sp_entry_price = P1\<rparr>"
  then have "0 < S1 * (S1 + S2)" by simp
  then have "\<not> S1 * (S1 + S2) \<le> 0" by simp
  with h show "positions (update_position symbol SIDE_BUY S2 P2 s) symbol =
          Some \<lparr>sp_size = S1 + S2, sp_entry_price = (S1 * P1 + S2 * P2) / (S1 + S2)\<rparr>"
    by (simp add: update_position_def Let_def)
qed

theorem C2_open_overwrites_client_averages_witness:
  "fst (open_pos long_100 200 1 10000 1)
   \<and> entry_price (snd (snd (open_pos long_100 200 1 10000 1))) = 200
   \<and> size_pos (snd (snd (open_pos long_100 200 1 10000 1))) = 1
   \<and> \<not> fst (open_pos long_100 200 1 100 1)
   \<and> snd (snd (open_pos long_100 200 1 100 1)) = long_100
   \<and> positions (update_position ''BTCUSDT'' SIDE_BUY 1 200
        ((init_client 10000)\<lparr>positions := [''BTCUSDT'' \<mapsto> \<lparr>sp_size = 1, sp_entry_price = 100\<rparr>]\<rparr>))
        ''BTCUSDT'' = Some \<lparr>sp_size = 2, sp_entry_price = 150\<rparr>"
proof -
  have a: "fst (open_pos long_100 200 1 10000 1)"
    by (simp add: open_pos_def Fee_commission_def Fee_Taker_def)
  have r: "\<not> fst (open_pos long_100 200 1 100 1)"
    by (simp add: open_pos_def Fee_commission_def Fee_Taker_def)
  show ?thesis
    using a r
      C2_open_overwrites_client_averages [of long_100 200 1 10000 1 1
        "(init_client 10000)\<lparr>positions := [''BTCUSDT'' \<mapsto> \<lparr>sp_size = 1, sp_entry_price = 100\<rparr>]\<rparr>"
        "''BTCUSDT''" 100]
      C2_open_overwrites_client_averages [of long_100 200 1 100 1 1
        "(init_client 10000)\<lparr>positions := [''BTCUSDT'' \<mapsto> \<lparr>sp_size = 1, sp_entry_price = 100\<rparr>]\<rparr>"
        "''BTCUSDT''" 100]
    by (simp add: init_client_def)
qed

text \<open>
  The claim as stated fails: a long position of size 1 entered at 100, opened again long
  with size 1 at 200 and balance 10000, is accepted and ends with entry price 200, not the
  average 150.
\<close>

theorem C2_open_scale_in_counterexample:
  "side long_100 = 1 \<and> size_pos long_100 = 1 \<and> entry_price long_100 = 100
   \<and> fst (open_pos long_100 200 1 10000 1)
   \<and> entry_price (snd (snd (open_pos long_100 200 1 10000 1)))
       \<noteq> (size_pos long_100 * entry_price long_100 + 1 * 200) / (size_pos long_100 + 1)"
  by (simp add: open_pos_def long_100_def init_pos_def Fee_commission_def Fee_Taker_def)

subsection \<open>Balance non-negativity\<close>

text \<open>
  Claim C3. The claim expects every call of a sequence of \<^verbatim>\<open>open\<close> and
  \<^verbatim>\<open>close\<close> calls, started from a balance that is not negative, to return a
  balance that is not negative. In binary64 the sequence of the one call
  \<^verbatim>\<open>open(204.7, 5, 1024.01175, 1)\<close> on the flat position breaks it: the amount is
  1023.5, the rounded sum of commission and amount is the balance itself, so the guard
  \<^verbatim>\<open>balance < commission + amount\<close> lets the call through, and the two rounded
  subtractions return \<open>- 2^-43\<close>, about \<open>-1.137e-13\<close>. In exact arithmetic the same
  call returns 0. \<^verbatim>\<open>close\<close> floors its result at 0; \<^verbatim>\<open>open\<close> does not.
\<close>

theorem C3_open_rounding_negative_balance:
  "fl 204.7 = 3601120483291955 / 17592186044416
   \<and> fl 1024.01175 = 4503651304417001 / 4398046511104
   \<and> 0 \<le> fl 1024.01175
   \<and> fst (open_float flat_pos (fl 204.7) 5 (fl 1024.01175) 1)
   \<and> fst (snd (open_float flat_pos (fl 204.7) 5 (fl 1024.01175) 1)) = - 1 / 2 ^ 43
   \<and> fst (snd (open_float flat_pos (fl 204.7) 5 (fl 1024.01175) 1)) < 0
   \<and> fst (snd (open_pos flat_pos 204.7 5 1024.01175 1)) = 0"
proof -
  have p: "fl 204.7 = 3601120483291955 / 17592186044416"
    by (simp add: fl_eval)
  have b: "fl 1024.01175 = 4503651304417001 / 4398046511104"
    by (simp add: fl_eval)
  have n: "0 \<le> fl 1024.01175"
    unfolding b by simp
  have a: "fst (open_float flat_pos (fl 204.7) 5 (fl 1024.01175) 1)"
    by (simp add: open_float_def Fee_commission_float_def Fee_Taker_float_def fl_eval)
  have v: "fst (snd (open_float flat_pos (fl 204.7) 5 (fl 1024.01175) 1)) = - 1 / 2 ^ 43"
    by (simp add: open_float_def Fee_commission_float_def Fee_Taker_float_def fl_eval)
  have l: "fst (snd (open_float flat_pos (fl 204.7) 5 (fl 1024.01175) 1)) < 0"
    unfolding v by simp
  have x: "fst (snd (open_pos flat_pos 204.7 5 1024.01175 1)) = 0"
    by (simp add: open_pos_def Fee_commission_def Fee_Taker_def)
  from p b n a v l x show ?thesis by blast
qed

subsection \<open>Round trip at an unchanged price\<close>

text \<open>
  Claim C4, as amended. For every price \<open>P\<close> and size \<open>S\<close> above the epsilon
  \<open>1e-10\<close>, with a balance that covers notional and commission, \<^verbatim>\<open>open\<close> at
  \<open>P\<close> is accepted and an immediate \<^verbatim>\<open>close\<close> at the same \<open>P\<close> reports a
  realized PnL of 0: the reported PnL is the price move alone and holds no commission. The
  two commissions are paid from the balance: when \<open>P\<close> is not negative, the balance
  after the round trip is the initial balance less the commission of the open and the
  commission of the close.
\<close>

theorem C4_round_trip_pnl_zero:
  "0.0000000001 < S \<Longrightarrow> Fee_commission (S * P) + S * P \<le> bal \<Longrightarrow>
   fst (open_pos p P S bal sd)
   \<and> fst (close_pos (snd (snd (open_pos p P S bal sd))) P (fst (snd (open_pos p P S bal sd)))) = 0
   \<and> (0 \<le> P \<longrightarrow>
        fst (snd (close_pos (snd (snd (open_pos p P S bal sd))) P
                   (fst (snd (open_pos p P S bal sd)))))
          = bal - Fee_commission (S * P) - Fee_commission (S * P))"
proof -
  assume S: "0.0000000001 < S" and b: "Fee_commission (S * P) + S * P \<le> bal"
  define p1 where "p1 = p\<lparr>side := sd, size_pos := S, entry_price := P,
       capital := S * P + Fee_commission (S * P), unrealized_pnl := 0,
       holding_time := 1, idle_time := 0, max_profit := 0, max_loss := 0\<rparr>"
  from S b have op: "open_pos p P S bal sd = (True, bal - Fee_commission (S * P) - S * P, p1)"
    by (simp add: open_pos_def Let_def p1_def)
  have pnl: "fst (close_pos p1 P (bal - Fee_commission (S * P) - S * P)) = 0"
    by (simp add: close_pos_def Let_def p1_def split_beta)
  have cost: "fst (snd (close_pos p1 P (bal - Fee_commission (S * P) - S * P)))
      = bal - Fee_commission (S * P) - Fee_commission (S * P)" if P: "0 \<le> P"
  proof -
    from S have "0 < S" by simp
    with P have "0 \<le> S * P" by simp
    with b have "\<not> bal - Fee_commission (S * P) - S * P + S * P - Fee_commission (S * P) < 0"
      by (simp add: Fee_commission_def Fee_Taker_def mult.commute [of P S])
    then show ?thesis
      by (simp add: close_pos_def Let_def p1_def split_beta)
  qed
  from op pnl cost show ?thesis by simp
qed

theorem C4_round_trip_pnl_zero_witness:
  "(0.0000000001::real) < 1 \<and> Fee_commission (1 * 100) + 1 * 100 \<le> 10000
   \<and> fst (open_pos flat_pos 100 1 10000 1)
   \<and> fst (close_pos (snd (snd (open_pos flat_pos 100 1 10000 1))) 100
            (fst (snd (open_pos flat_pos 100 1 10000 1)))) = 0
   \<and> fst (snd (close_pos (snd (snd (open_pos flat_pos 100 1 10000 1))) 100
                 (fst (snd (open_pos flat_pos 100 1 10000 1))))) = 9999.9"
proof -
  have S: "(0.0000000001::real) < 1" by simp
  have b: "Fee_commission (1 * 100) + 1 * 100 \<le> 10000"
    by (simp add: Fee_commission_def Fee_Taker_def)
  show ?thesis
    using S b C4_round_trip_pnl_zero [OF S b, of flat_pos 1]
    by (simp add: Fee_commission_def Fee_Taker_def)
qed

text \<open>
  The claim as stated fails: opening long with size 1 at price 100 from balance 10000 and
  closing at once at 100 reports a realized PnL of 0, while the two commissions are 0.05
  each.
\<close>

theorem C4_round_trip_pnl_counterexample:
  "fst (open_pos flat_pos 100 1 10000 1)
   \<and> Fee_commission (1 * 100) = 0.05
   \<and> fst (close_pos (snd (snd (open_pos flat_pos 100 1 10000 1))) 100
            (fst (snd (open_pos flat_pos 100 1 10000 1))))
       \<noteq> - Fee_commission (1 * 100) - Fee_commission (1 * 100)"
  by (simp add: open_pos_def close_pos_def flat_pos_def init_pos_def Fee_commission_def
      Fee_Taker_def)

subsection \<open>Rejected opens\<close>



subsection \<open>The flat invariant\<close>

text \<open>
  Claim C8, as amended. On a position that satisfies the flat invariant (\<open>side = 0\<close>
  iff \<open>size = 0\<close> iff \<open>entryPrice = 0\<close>), the invariant holds after every
  \<^verbatim>\<open>open\<close> with side 1 or -1 at a price other than 0, and after every
  \<^verbatim>\<open>close\<close>, \<^verbatim>\<open>update\<close> and \<^verbatim>\<open>reset\<close>. An accepted such
  \<^verbatim>\<open>open\<close> leaves side, size and entry price all non-zero; \<^verbatim>\<open>close\<close> and
  \<^verbatim>\<open>reset\<close> leave all three zero; \<^verbatim>\<open>update\<close> on a flat position leaves
  size and entry price zero.
\<close>

theorem C8_flat_invariant_preserved:
  "flat_inv p \<Longrightarrow> sd = 1 \<or> sd = - 1 \<Longrightarrow> P \<noteq> 0 \<Longrightarrow>
   flat_inv (snd (snd (open_pos p P S bal sd)))
   \<and> (fst (open_pos p P S bal sd) \<longrightarrow>
        side (snd (snd (open_pos p P S bal sd))) \<noteq> 0 \<and>
        size_pos (snd (snd (open_pos p P S bal sd))) \<noteq> 0 \<and>
        entry_price (snd (snd (open_pos p P S bal sd))) \<noteq> 0)
   \<and> flat_inv (snd (snd (close_pos p Q bal)))
   \<and> side (snd (snd (close_pos p Q bal))) = 0
   \<and> size_pos (snd (snd (close_pos p Q bal))) = 0
   \<and> entry_price (snd (snd (close_pos p Q bal))) = 0
   \<and> flat_inv (update_pos p Q)
   \<and> (side p = 0 \<longrightarrow> size_pos (update_pos p Q) = 0 \<and> entry_price (update_pos p Q) = 0)
   \<and> flat_inv (reset_pos p)
   \<and> side (reset_pos p) = 0 \<and> size_pos (reset_pos p) = 0 \<and> entry_price (reset_pos p) = 0"
proof -
  assume inv: "flat_inv p" and sd: "sd = 1 \<or> sd = - 1" and P: "P \<noteq> 0"
  from inv sd P have o1: "flat_inv (snd (snd (open_pos p P S bal sd)))"
    by (auto simp: flat_inv_def open_pos_def Let_def)
  from sd P have o2: "fst (open_pos p P S bal sd) \<longrightarrow>
        side (snd (snd (open_pos p P S bal sd))) \<noteq> 0 \<and>
        size_pos (snd (snd (open_pos p P S bal sd))) \<noteq> 0 \<and>
        entry_price (snd (snd (open_pos p P S bal sd))) \<noteq> 0"
    by (auto simp: open_pos_def Let_def)
  have c: "flat_inv (snd (snd (close_pos p Q bal)))"
    "side (snd (snd (close_pos p Q bal))) = 0"
    "size_pos (snd (snd (close_pos p Q bal))) = 0"
    "entry_price (snd (snd (close_pos p Q bal))) = 0"
    by (simp_all add: flat_inv_def close_pos_def Let_def split_beta)
  from inv have u: "flat_inv (update_pos p Q)"
    "side p = 0 \<longrightarrow> size_pos (update_pos p Q) = 0 \<and> entry_price (update_pos p Q) = 0"
    by (auto simp: flat_inv_def update_pos_def Let_def)
  have r: "flat_inv (reset_pos p)"
    "side (reset_pos p) = 0 \<and> size_pos (reset_pos p) = 0 \<and> entry_price (reset_pos p) = 0"
    by (simp_all add: flat_inv_def reset_pos_def)
  from o1 o2 c u r show ?thesis by blast
qed

theorem C8_flat_invariant_preserved_witness:
  "flat_inv flat_pos \<and> ((1::int) = 1 \<or> (1::int) = - 1) \<and> (100::real) \<noteq> 0
   \<and> fst (open_pos flat_pos 100 1 10000 1)
   \<and> flat_inv (snd (snd (open_pos flat_pos 100 1 10000 1)))
   \<and> side (snd (snd (open_pos flat_pos 100 1 10000 1))) \<noteq> 0
   \<and> flat_inv (snd (snd (close_pos flat_pos 110 10000)))
   \<and> flat_inv (update_pos flat_pos 110)
   \<and> flat_inv (reset_pos flat_pos)"
proof -
  have i: "flat_inv flat_pos" by (simp add: flat_inv_def flat_pos_def init_pos_def)
  have sd: "(1::int) = 1 \<or> (1::int) = - 1" by simp
  have P: "(100::real) \<noteq> 0" by simp
  have a: "fst (open_pos flat_pos 100 1 10000 1)"
    by (simp add: open_pos_def Fee_commission_def Fee_Taker_def)
  show ?thesis
    using i a C8_flat_invariant_preserved [OF i sd P, of 1 10000 110]
    by simp
qed

text \<open>
  The claim as stated fails: on the flat position, which satisfies the invariant,
  \<^verbatim>\<open>open\<close> long with size 1 at price 0 and balance 10000 is accepted and leaves
  side 1 and size 1 with entry price 0.
\<close>

theorem C8_flat_invariant_counterexample:
  "flat_inv flat_pos
   \<and> fst (open_pos flat_pos 0 1 10000 1)
   \<and> side (snd (snd (open_pos flat_pos 0 1 10000 1))) = 1
   \<and> size_pos (snd (snd (open_pos flat_pos 0 1 10000 1))) = 1
   \<and> entry_price (snd (snd (open_pos flat_pos 0 1 10000 1))) = 0
   \<and> \<not> flat_inv (snd (snd (open_pos flat_pos 0 1 10000 1)))"
  by (simp add: flat_inv_def flat_pos_def init_pos_def open_pos_def Fee_commission_def
      Fee_Taker_def)

subsection \<open>Limit orders on a price tick\<close>

text \<open>
  Claim C5. On a price tick for a symbol, a resting \<open>NEW\<close> limit order for that symbol
  (the order at index \<open>i\<close> of the order list) becomes \<open>FILLED\<close> iff its side is buy
  and the tick price is at most its limit price, or its side is sell and the tick price is
  at least its limit price. The tick as a whole is the cached price set, then the
  fill-eligible orders executed in list order, each by \<open>exec_fill\<close>, that is at its own
  limit price, and those orders marked \<open>FILLED\<close>. For the order at index \<open>i\<close>: the
  tick runs the loop body for it on the client the earlier fills have produced and goes on
  from the result with the later orders. When the order fills, the body updates the
  position and the balance with the order's own limit price and appends a trade at that
  price, and that trade is among the trades the tick appends. When it does not fill, the
  order stays \<open>NEW\<close>, the body leaves the client unchanged, and the tick ends with the
  same balance, positions and trades as a tick on the order list without that order. The
  statements about the body hold on every client \<open>c\<close>.
\<close>

theorem C5_limit_fill_rule:
  "i < length (orders s) \<Longrightarrow> resting symbol (orders s ! i) \<Longrightarrow>
   ((o_status (orders (update_market_price gen symbol price s) ! i) = ''FILLED'')
      = ((o_side (orders s ! i) = SIDE_BUY \<and> price \<le> o_price (orders s ! i)) \<or>
         (o_side (orders s ! i) = SIDE_SELL \<and> price \<ge> o_price (orders s ! i))))
   \<and> (crosses price (orders s ! i) \<longrightarrow>
        orders (update_market_price gen symbol price s) ! i = (orders s ! i)\<lparr>o_status := ''FILLED''\<rparr> \<and>
        check_order gen symbol price (orders s ! i) c =
          ((orders s ! i)\<lparr>o_status := ''FILLED''\<rparr>,
           (update_position symbol (o_side (orders s ! i)) (o_quantity (orders s ! i))
              (o_price (orders s ! i)) c)
             \<lparr>trades := trades c @ [fill_trade gen (length (trades c)) (orders s ! i)]\<rparr>) \<and>
        t_price (fill_trade gen (length (trades c)) (orders s ! i)) = o_price (orders s ! i))
   \<and> (\<not> crosses price (orders s ! i) \<longrightarrow>
        orders (update_market_price gen symbol price s) ! i = orders s ! i \<and>
        o_status (orders (update_market_price gen symbol price s) ! i) = ''NEW'' \<and>
        check_order gen symbol price (orders s ! i) c = (orders s ! i, c))
   \<and> update_market_price gen symbol price s =
        (foldl (exec_fill gen symbol) (s\<lparr>market_prices := (market_prices s)(symbol \<mapsto> price)\<rparr>)
           (filter (\<lambda>od. resting symbol od \<and> crosses price od) (orders s)))
        \<lparr>orders := map (\<lambda>od. if resting symbol od \<and> crosses price od
                               then od\<lparr>o_status := ''FILLED''\<rparr> else od) (orders s)\<rparr>
   \<and> update_market_price gen symbol price s =
        (foldl (exec_fill gen symbol)
           (snd (check_order gen symbol price (orders s ! i)
                   (foldl (exec_fill gen symbol)
                      (s\<lparr>market_prices := (market_prices s)(symbol \<mapsto> price)\<rparr>)
                      (filter (\<lambda>od. resting symbol od \<and> crosses price od)
                         (take i (orders s))))))
           (filter (\<lambda>od. resting symbol od \<and> crosses price od) (drop (Suc i) (orders s))))
        \<lparr>orders := map (\<lambda>od. if resting symbol od \<and> crosses price od
                               then od\<lparr>o_status := ''FILLED''\<rparr> else od) (orders s)\<rparr>
   \<and> (crosses price (orders s ! i) \<longrightarrow>
        (o_orderId (orders s ! i), o_side (orders s ! i), o_price (orders s ! i),
         o_quantity (orders s ! i))
          \<in> set (map (\<lambda>t. (t_orderId t, t_side t, t_price t, t_quantity t))
                   (drop (length (trades s)) (trades (update_market_price gen symbol price s)))))
   \<and> (\<not> crosses price (orders s ! i) \<longrightarrow>
        balance (update_market_price gen symbol price s) =
          balance (update_market_price gen symbol price
                     (s\<lparr>orders := take i (orders s) @ drop (Suc i) (orders s)\<rparr>)) \<and>
        positions (update_market_price gen symbol price s) =
          positions (update_market_price gen symbol price
                       (s\<lparr>orders := take i (orders s) @ drop (Suc i) (orders s)\<rparr>)) \<and>
        trades (update_market_price gen symbol price s) =
          trades (update_market_price gen symbol price
                    (s\<lparr>orders := take i (orders s) @ drop (Suc i) (orders s)\<rparr>)))"
proof -
  assume i: "i < length (orders s)" and r: "resting symbol (orders s ! i)"
  let ?od = "orders s ! i"
  let ?P = "\<lambda>od. resting symbol od \<and> crosses price od"
  let ?s0 = "s\<lparr>market_prices := (market_prices s)(symbol \<mapsto> price)\<rparr>"
  let ?mark = "map (\<lambda>od. if resting symbol od \<and> crosses price od
                               then od\<lparr>o_status := ''FILLED''\<rparr> else od) (orders s)"
  let ?ci = "foldl (exec_fill gen symbol) ?s0 (filter ?P (take i (orders s)))"
  from i have nth: "orders (update_market_price gen symbol price s) ! i =
      (if resting symbol ?od \<and> crosses price ?od then ?od\<lparr>o_status := ''FILLED''\<rparr> else ?od)"
    by (simp add: update_market_price_orders)
  from r have new: "o_status ?od = ''NEW''" by (simp add: resting_def)
  have st: "(o_status (orders (update_market_price gen symbol price s) ! i) = ''FILLED'')
      = crosses price ?od"
    using r new by (simp add: nth)
  have cr: "crosses price ?od = ((o_side ?od = SIDE_BUY \<and> price \<le> o_price ?od) \<or>
         (o_side ?od = SIDE_SELL \<and> price \<ge> o_price ?od))"
    by (simp add: crosses_def)
  have fill: "crosses price ?od \<longrightarrow>
        orders (update_market_price gen symbol price s) ! i = ?od\<lparr>o_status := ''FILLED''\<rparr> \<and>
        check_order gen symbol price ?od c =
          (?od\<lparr>o_status := ''FILLED''\<rparr>,
           (update_position symbol (o_side ?od) (o_quantity ?od) (o_price ?od) c)
             \<lparr>trades := trades c @ [fill_trade gen (length (trades c)) ?od]\<rparr>) \<and>
        t_price (fill_trade gen (length (trades c)) ?od) = o_price ?od"
    using r by (simp add: nth check_order_fill fill_trade_def)
  have skip: "\<not> crosses price ?od \<longrightarrow>
        orders (update_market_price gen symbol price s) ! i = ?od \<and>
        o_status (orders (update_market_price gen symbol price s) ! i) = ''NEW'' \<and>
        check_order gen symbol price ?od c = (?od, c)"
    using new by (simp add: nth check_order_skip)
  have whole: "update_market_price gen symbol price s =
      (foldl (exec_fill gen symbol) ?s0 (filter ?P (orders s)))\<lparr>orders := ?mark\<rparr>"
    by (rule update_market_price_state)
  have "foldl (exec_fill gen symbol) ?s0 (filter ?P (orders s)) =
      foldl (exec_fill gen symbol)
        (foldl (exec_fill gen symbol) ?ci (filter ?P [?od]))
        (filter ?P (drop (Suc i) (orders s)))"
    by (subst filter_split_nth [OF i, of ?P]) simp
  also have "foldl (exec_fill gen symbol) ?ci (filter ?P [?od]) =
      snd (check_order gen symbol price ?od ?ci)"
    by (simp add: check_order_snd)
  finally have split: "foldl (exec_fill gen symbol) ?s0 (filter ?P (orders s)) =
      foldl (exec_fill gen symbol) (snd (check_order gen symbol price ?od ?ci))
        (filter ?P (drop (Suc i) (orders s)))" .
  have local: "update_market_price gen symbol price s =
      (foldl (exec_fill gen symbol) (snd (check_order gen symbol price ?od ?ci))
         (filter ?P (drop (Suc i) (orders s))))\<lparr>orders := ?mark\<rparr>"
    using whole by (simp only: split)
  have member: "crosses price ?od \<longrightarrow>
        (o_orderId ?od, o_side ?od, o_price ?od, o_quantity ?od)
          \<in> set (map (\<lambda>t. (t_orderId t, t_side t, t_price t, t_quantity t))
                   (drop (length (trades s)) (trades (update_market_price gen symbol price s))))"
  proof
    assume c: "crosses price ?od"
    have "map (\<lambda>t. (t_orderId t, t_side t, t_price t, t_quantity t))
            (drop (length (trades s)) (trades (update_market_price gen symbol price s)))
        = drop (length (map (\<lambda>t. (t_orderId t, t_side t, t_price t, t_quantity t)) (trades s)))
            (map (\<lambda>t. (t_orderId t, t_side t, t_price t, t_quantity t))
               (trades (update_market_price gen symbol price s)))"
      by (simp add: drop_map)
    also have "\<dots> = map (\<lambda>od. (o_orderId od, o_side od, o_price od, o_quantity od))
                     (filter ?P (orders s))"
      by (subst update_market_price_trades) simp
    finally have eq: "map (\<lambda>t. (t_orderId t, t_side t, t_price t, t_quantity t))
            (drop (length (trades s)) (trades (update_market_price gen symbol price s)))
        = map (\<lambda>od. (o_orderId od, o_side od, o_price od, o_quantity od))
            (filter ?P (orders s))" .
    from i have "?od \<in> set (orders s)" by simp
    with r c have "?od \<in> set (filter ?P (orders s))" by simp
    then show "(o_orderId ?od, o_side ?od, o_price ?od, o_quantity ?od)
          \<in> set (map (\<lambda>t. (t_orderId t, t_side t, t_price t, t_quantity t))
                   (drop (length (trades s)) (trades (update_market_price gen symbol price s))))"
      unfolding eq set_map by (rule imageI)
  qed
  have without: "\<not> crosses price ?od \<longrightarrow>
        balance (update_market_price gen symbol price s) =
          balance (update_market_price gen symbol price
                     (s\<lparr>orders := take i (orders s) @ drop (Suc i) (orders s)\<rparr>)) \<and>
        positions (update_market_price gen symbol price s) =
          positions (update_market_price gen symbol price
                       (s\<lparr>orders := take i (orders s) @ drop (Suc i) (orders s)\<rparr>)) \<and>
        trades (update_market_price gen symbol price s) =
          trades (update_market_price gen symbol price
                    (s\<lparr>orders := take i (orders s) @ drop (Suc i) (orders s)\<rparr>))"
  proof
    assume n: "\<not> crosses price ?od"
    then have n': "\<not> ?P ?od" by simp
    let ?ods = "take i (orders s) @ drop (Suc i) (orders s)"
    have f: "filter ?P ?ods = filter ?P (orders s)"
      using i n' by (rule filter_without_nth)
    have st': "update_market_price gen symbol price (s\<lparr>orders := ?ods\<rparr>) =
        (foldl (exec_fill gen symbol)
           ((s\<lparr>orders := ?ods\<rparr>)\<lparr>market_prices :=
               (market_prices (s\<lparr>orders := ?ods\<rparr>))(symbol \<mapsto> price)\<rparr>)
           (filter ?P (orders (s\<lparr>orders := ?ods\<rparr>))))
        \<lparr>orders := map (\<lambda>od. if resting symbol od \<and> crosses price od
                               then od\<lparr>o_status := ''FILLED''\<rparr> else od)
                     (orders (s\<lparr>orders := ?ods\<rparr>))\<rparr>"
      by (rule update_market_price_state)
    have o': "orders (s\<lparr>orders := ?ods\<rparr>) = ?ods" by simp
    have m': "market_prices (s\<lparr>orders := ?ods\<rparr>) = market_prices s" by simp
    have s0: "(s\<lparr>orders := ?ods\<rparr>)\<lparr>market_prices := (market_prices s)(symbol \<mapsto> price)\<rparr>
        = ?s0\<lparr>orders := ?ods\<rparr>"
      by simp
    have w: "update_market_price gen symbol price (s\<lparr>orders := ?ods\<rparr>) =
        ((foldl (exec_fill gen symbol) ?s0 (filter ?P (orders s)))\<lparr>orders := ?ods\<rparr>)
        \<lparr>orders := map (\<lambda>od. if resting symbol od \<and> crosses price od
                               then od\<lparr>o_status := ''FILLED''\<rparr> else od) ?ods\<rparr>"
      using st' unfolding o' m' f s0 foldl_exec_fill_orders_update .
    show "balance (update_market_price gen symbol price s) =
          balance (update_market_price gen symbol price (s\<lparr>orders := ?ods\<rparr>)) \<and>
        positions (update_market_price gen symbol price s) =
          positions (update_market_price gen symbol price (s\<lparr>orders := ?ods\<rparr>)) \<and>
        trades (update_market_price gen symbol price s) =
          trades (update_market_price gen symbol price (s\<lparr>orders := ?ods\<rparr>))"
      by (simp only: w whole) simp
  qed
  from st cr fill skip whole local member without show ?thesis by blast
qed

theorem C5_limit_fill_rule_witness:
  "(0::nat) < length (orders client_two_orders)
   \<and> resting ''BTCUSDT'' (orders client_two_orders ! 0)
   \<and> o_price (orders client_two_orders ! 0) = 100
   \<and> o_status (orders (update_market_price gen0 ''BTCUSDT'' 95 client_two_orders) ! 0) = ''FILLED''
   \<and> t_price (fill_trade gen0 (length (trades client_two_orders)) (orders client_two_orders ! 0)) = 100
   \<and> balance (snd (check_order gen0 ''BTCUSDT'' 95 (orders client_two_orders ! 0) client_two_orders))
       = 9999.9
   \<and> o_status (orders (update_market_price gen0 ''BTCUSDT'' 105 client_two_orders) ! 0) = ''NEW''
   \<and> check_order gen0 ''BTCUSDT'' 105 (orders client_two_orders ! 0) client_two_orders
       = (buy_at_100, client_two_orders)
   \<and> balance (update_market_price gen0 ''BTCUSDT'' 95 client_two_orders) = 9999.855
   \<and> positions (update_market_price gen0 ''BTCUSDT'' 95 client_two_orders) ''BTCUSDT''
       = Some \<lparr>sp_size = 1, sp_entry_price = 290\<rparr>
   \<and> map t_price (trades (update_market_price gen0 ''BTCUSDT'' 95 client_two_orders)) = [100, 90]
   \<and> balance (update_market_price gen0 ''BTCUSDT'' 105 client_two_orders) = 9999.955
   \<and> map t_price (trades (update_market_price gen0 ''BTCUSDT'' 105 client_two_orders)) = [90]"
proof -
  have i: "(0::nat) < length (orders client_two_orders)"
    by (simp add: client_two_orders_def)
  have r: "resting ''BTCUSDT'' (orders client_two_orders ! 0)"
    by (simp add: client_two_orders_def resting_def buy_at_100_def)
  have od: "orders client_two_orders ! 0 = buy_at_100"
    by (simp add: client_two_orders_def)
  have yes: "crosses 95 buy_at_100" and no: "\<not> crosses 105 buy_at_100"
    by (simp_all add: crosses_def buy_at_100_def SIDE_BUY_def SIDE_SELL_def)
  have b: "balance (update_position ''BTCUSDT'' (o_side buy_at_100) (o_quantity buy_at_100)
              (o_price buy_at_100) client_two_orders) = 9999.9"
    by (simp add: update_position_balance client_two_orders_def init_client_def buy_at_100_def
        Fee_Taker_def)
  have f95: "filter (\<lambda>od. resting ''BTCUSDT'' od \<and> crosses 95 od) (orders client_two_orders)
      = [buy_at_100, sell_at_90]"
    by (simp add: client_two_orders_def resting_def crosses_def buy_at_100_def sell_at_90_def
        SIDE_BUY_def SIDE_SELL_def)
  have f105: "filter (\<lambda>od. resting ''BTCUSDT'' od \<and> crosses 105 od) (orders client_two_orders)
      = [sell_at_90]"
    by (simp add: client_two_orders_def resting_def crosses_def buy_at_100_def sell_at_90_def
        SIDE_BUY_def SIDE_SELL_def)
  have t95: "balance (foldl (exec_fill gen0 ''BTCUSDT'')
        (client_two_orders\<lparr>market_prices := (market_prices client_two_orders)(''BTCUSDT'' \<mapsto> 95)\<rparr>)
        [buy_at_100, sell_at_90]) = 9999.855"
    "positions (foldl (exec_fill gen0 ''BTCUSDT'')
        (client_two_orders\<lparr>market_prices := (market_prices client_two_orders)(''BTCUSDT'' \<mapsto> 95)\<rparr>)
        [buy_at_100, sell_at_90]) ''BTCUSDT'' = Some \<lparr>sp_size = 1, sp_entry_price = 290\<rparr>"
    "map t_price (trades (foldl (exec_fill gen0 ''BTCUSDT'')
        (client_two_orders\<lparr>market_prices := (market_prices client_two_orders)(''BTCUSDT'' \<mapsto> 95)\<rparr>)
        [buy_at_100, sell_at_90])) = [100, 90]"
    by (simp_all add: exec_fill_def update_position_def calculate_commission_def Fee_Taker_def
        fill_trade_def Let_def client_two_orders_def init_client_def buy_at_100_def
        sell_at_90_def SIDE_BUY_def SIDE_SELL_def)
  have t105: "balance (foldl (exec_fill gen0 ''BTCUSDT'')
        (client_two_orders\<lparr>market_prices := (market_prices client_two_orders)(''BTCUSDT'' \<mapsto> 105)\<rparr>)
        [sell_at_90]) = 9999.955"
    "map t_price (trades (foldl (exec_fill gen0 ''BTCUSDT'')
        (client_two_orders\<lparr>market_prices := (market_prices client_two_orders)(''BTCUSDT'' \<mapsto> 105)\<rparr>)
        [sell_at_90])) = [90]"
    by (simp_all add: exec_fill_def update_position_def calculate_commission_def Fee_Taker_def
        fill_trade_def Let_def client_two_orders_def init_client_def buy_at_100_def
        sell_at_90_def SIDE_BUY_def SIDE_SELL_def)
  note w95 = C5_limit_fill_rule [OF i r, of gen0 95 client_two_orders]
  note w105 = C5_limit_fill_rule [OF i r, of gen0 105 client_two_orders]
  have s95: "update_market_price gen0 ''BTCUSDT'' 95 client_two_orders =
      (foldl (exec_fill gen0 ''BTCUSDT'')
        (client_two_orders\<lparr>market_prices := (market_prices client_two_orders)(''BTCUSDT'' \<mapsto> 95)\<rparr>)
        [buy_at_100, sell_at_90])
      \<lparr>orders := map (\<lambda>od. if resting ''BTCUSDT'' od \<and> crosses 95 od
                             then od\<lparr>o_status := ''FILLED''\<rparr> else od) (orders client_two_orders)\<rparr>"
    using w95 unfolding f95 by blast
  have s105: "update_market_price gen0 ''BTCUSDT'' 105 client_two_orders =
      (foldl (exec_fill gen0 ''BTCUSDT'')
        (client_two_orders\<lparr>market_prices := (market_prices client_two_orders)(''BTCUSDT'' \<mapsto> 105)\<rparr>)
        [sell_at_90])
      \<lparr>orders := map (\<lambda>od. if resting ''BTCUSDT'' od \<and> crosses 105 od
                             then od\<lparr>o_status := ''FILLED''\<rparr> else od) (orders client_two_orders)\<rparr>"
    using w105 unfolding f105 by blast
  have tick: "balance (update_market_price gen0 ''BTCUSDT'' 95 client_two_orders) = 9999.855"
    "positions (update_market_price gen0 ''BTCUSDT'' 95 client_two_orders) ''BTCUSDT''
       = Some \<lparr>sp_size = 1, sp_entry_price = 290\<rparr>"
    "map t_price (trades (update_market_price gen0 ''BTCUSDT'' 95 client_two_orders)) = [100, 90]"
    "balance (update_market_price gen0 ''BTCUSDT'' 105 client_two_orders) = 9999.955"
    "map t_price (trades (update_market_price gen0 ''BTCUSDT'' 105 client_two_orders)) = [90]"
    using t95 t105 by (simp_all only: s95 s105) simp_all
  have body: "o_price (orders client_two_orders ! 0) = 100
   \<and> o_status (orders (update_market_price gen0 ''BTCUSDT'' 95 client_two_orders) ! 0) = ''FILLED''
   \<and> t_price (fill_trade gen0 (length (trades client_two_orders)) (orders client_two_orders ! 0)) = 100
   \<and> balance (snd (check_order gen0 ''BTCUSDT'' 95 (orders client_two_orders ! 0) client_two_orders))
       = 9999.9
   \<and> o_status (orders (update_market_price gen0 ''BTCUSDT'' 105 client_two_orders) ! 0) = ''NEW''
   \<and> check_order gen0 ''BTCUSDT'' 105 (orders client_two_orders ! 0) client_two_orders
       = (buy_at_100, client_two_orders)"
    using i r yes no b
      C5_limit_fill_rule [OF i r, of gen0 95 client_two_orders]
      C5_limit_fill_rule [OF i r, of gen0 105 client_two_orders]
    by (simp add: od buy_at_100_def)
  from i r body tick show ?thesis by blast
qed

subsection \<open>Fill order within one tick\<close>


subsection \<open>Market orders\<close>

text \<open>
  Claim C9, as amended. \<^verbatim>\<open>place_market_order\<close> returns the empty result when no
  price is cached for the symbol or the cached price is 0, and then creates no order,
  appends no trade and leaves positions and balance unchanged: the client is the same
  after the call. Otherwise it returns an order in \<open>FILLED\<close> status at the latest cached
  price, created within the call: the order is appended to the order list, one trade at the
  cached price is appended to the trade history, and the position is updated at that price.
\<close>

theorem C9_market_order_price_reference:
  "(market_prices s symbol = None \<or> market_prices s symbol = Some 0 \<longrightarrow>
      place_market_order order_id now trade_id symbol sd quantity reduce_only s = (None, s))
   \<and> (market_prices s symbol = Some price \<and> price \<noteq> 0 \<longrightarrow>
        fst (place_market_order order_id now trade_id symbol sd quantity reduce_only s) =
          Some \<lparr>o_orderId = order_id, o_symbol = symbol, o_side = sd,
                o_type = ORDER_TYPE_MARKET, o_quantity = quantity, o_price = price,
                o_timeInForce = None, o_reduceOnly = reduce_only,
                o_status = ''FILLED'', o_time = now\<rparr> \<and>
        orders (snd (place_market_order order_id now trade_id symbol sd quantity reduce_only s)) =
          orders s @ [\<lparr>o_orderId = order_id, o_symbol = symbol, o_side = sd,
                o_type = ORDER_TYPE_MARKET, o_quantity = quantity, o_price = price,
                o_timeInForce = None, o_reduceOnly = reduce_only,
                o_status = ''FILLED'', o_time = now\<rparr>] \<and>
        trades (snd (place_market_order order_id now trade_id symbol sd quantity reduce_only s)) =
          trades s @ [\<lparr>t_symbol = symbol, t_id = trade_id, t_orderId = order_id,
                t_side = sd, t_price = price, t_quantity = quantity,
                t_commission = calculate_commission (price * quantity), t_time = now\<rparr>] \<and>
        positions (snd (place_market_order order_id now trade_id symbol sd quantity reduce_only s)) =
          positions (update_position symbol sd quantity price s))"
  by (auto simp: place_market_order_def Let_def update_position_frame)

theorem C9_market_order_price_reference_witness:
  "market_prices (init_client 10000) ''BTCUSDT'' = None
   \<and> place_market_order ''o1'' 7 ''t1'' ''BTCUSDT'' SIDE_BUY 1 False (init_client 10000)
       = (None, init_client 10000)
   \<and> market_prices client_tick_100 ''BTCUSDT'' = Some 100
   \<and> (100::real) \<noteq> 0
   \<and> fst (place_market_order ''o1'' 7 ''t1'' ''BTCUSDT'' SIDE_BUY 1 False client_tick_100) =
        Some \<lparr>o_orderId = ''o1'', o_symbol = ''BTCUSDT'', o_side = SIDE_BUY,
              o_type = ORDER_TYPE_MARKET, o_quantity = 1, o_price = 100,
              o_timeInForce = None, o_reduceOnly = False,
              o_status = ''FILLED'', o_time = 7\<rparr>
   \<and> length (orders (snd (place_market_order ''o1'' 7 ''t1'' ''BTCUSDT'' SIDE_BUY 1 False
                            client_tick_100))) = 1
   \<and> length (trades (snd (place_market_order ''o1'' 7 ''t1'' ''BTCUSDT'' SIDE_BUY 1 False
                            client_tick_100))) = 1"
proof -
  have n: "market_prices (init_client 10000) ''BTCUSDT'' = None"
    by (simp add: init_client_def)
  have c: "client_tick_100 =
      \<lparr>balance = 1, positions = Map.empty, orders = [], trades = [],
       market_prices = [''BTCUSDT'' \<mapsto> 100]\<rparr>"
    by (simp add: client_tick_100_def update_market_price_def check_limit_orders_def
        init_client_def)
  have p: "market_prices client_tick_100 ''BTCUSDT'' = Some 100"
    by (simp add: c)
  show ?thesis
    using n p
      C9_market_order_price_reference [of "init_client 10000" "''BTCUSDT''" "''o1''" 7 "''t1''"
        SIDE_BUY 1 False 100]
      C9_market_order_price_reference [of client_tick_100 "''BTCUSDT''" "''o1''" 7 "''t1''"
        SIDE_BUY 1 False 100]
    by (simp add: c)
qed

text \<open>
  The claim as stated fails: after a price tick at 0 has been recorded for the symbol, a
  price is cached for it, and \<^verbatim>\<open>place_market_order\<close> still returns the empty result
  and leaves the client unchanged.
\<close>

theorem C9_market_order_zero_price_counterexample:
  "market_prices client_tick_zero ''BTCUSDT'' = Some 0
   \<and> market_prices client_tick_zero ''BTCUSDT'' \<noteq> None
   \<and> place_market_order ''o1'' 7 ''t1'' ''BTCUSDT'' SIDE_BUY 1 False client_tick_zero
       = (None, client_tick_zero)"
  by (simp add: client_tick_zero_def update_market_price_def check_limit_orders_def
      init_client_def place_market_order_def)

subsection \<open>Cash effect of a client fill\<close>

text \<open>
  Claim C10. Every fill through the simulation client changes the cash balance by exactly
  \<open>- (fill price * quantity * 0.0005)\<close>: the position update itself, for every side; a
  market order, for every side, \<^verbatim>\<open>reduce_only\<close> flag and balance, at the cached
  price; and a price tick, by the sum over the limit orders it fills, each at its own
  limit price. The notional is never debited or credited and no sufficiency check is made;
  a market buy of 1000 at price 100 on a client with balance 1 is filled and leaves the
  balance at -49.
\<close>

theorem C10_fill_charges_commission_only:
  "balance (update_position symbol sd quantity price s) = balance s - price * quantity * 0.0005
   \<and> (market_prices s symbol = Some price \<and> price \<noteq> 0 \<longrightarrow>
        balance (snd (place_market_order order_id now trade_id symbol sd quantity reduce_only s))
          = balance s - price * quantity * 0.0005)
   \<and> balance (update_market_price gen symbol tick s) =
        balance s - sum_list (map (\<lambda>od. o_price od * o_quantity od * 0.0005)
                                (filter (\<lambda>od. resting symbol od \<and> crosses tick od) (orders s)))
   \<and> 0 \<le> balance client_tick_100
   \<and> fst (place_market_order ''o1'' 7 ''t1'' ''BTCUSDT'' SIDE_BUY 1000 False client_tick_100) \<noteq> None
   \<and> balance (snd (place_market_order ''o1'' 7 ''t1'' ''BTCUSDT'' SIDE_BUY 1000 False
                     client_tick_100)) = - 49"
proof -
  have u: "balance (update_position symbol sd quantity price s)
      = balance s - price * quantity * 0.0005"
    by (simp add: update_position_balance Fee_Taker_def)
  have m: "market_prices s symbol = Some price \<and> price \<noteq> 0 \<longrightarrow>
        balance (snd (place_market_order order_id now trade_id symbol sd quantity reduce_only s))
          = balance s - price * quantity * 0.0005"
    by (auto simp: place_market_order_def Let_def update_position_balance Fee_Taker_def)
  have t: "balance (update_market_price gen symbol tick s) =
        balance s - sum_list (map (\<lambda>od. o_price od * o_quantity od * 0.0005)
                                (filter (\<lambda>od. resting symbol od \<and> crosses tick od) (orders s)))"
    by (simp add: update_market_price_balance Fee_Taker_def)
  have c: "client_tick_100 =
      \<lparr>balance = 1, positions = Map.empty, orders = [], trades = [],
       market_prices = [''BTCUSDT'' \<mapsto> 100]\<rparr>"
    by (simp add: client_tick_100_def update_market_price_def check_limit_orders_def
        init_client_def)
  have n: "0 \<le> balance client_tick_100"
    "fst (place_market_order ''o1'' 7 ''t1'' ''BTCUSDT'' SIDE_BUY 1000 False client_tick_100) \<noteq> None"
    "balance (snd (place_market_order ''o1'' 7 ''t1'' ''BTCUSDT'' SIDE_BUY 1000 False
                     client_tick_100)) = - 49"
    by (simp_all add: c place_market_order_def Let_def update_position_balance Fee_Taker_def)
  from u m t n show ?thesis by blast
qed

theorem C10_fill_charges_commission_only_witness:
  "market_prices client_tick_100 ''BTCUSDT'' = Some 100 \<and> (100::real) \<noteq> 0
   \<and> balance client_tick_100 = 1
   \<and> balance (snd (place_market_order ''o2'' 8 ''t2'' ''BTCUSDT'' SIDE_SELL 3 True client_tick_100))
       = 0.85
   \<and> balance (update_market_price gen0 ''BTCUSDT'' 95 client_two_orders) = 9999.855"
proof -
  have c: "client_tick_100 =
      \<lparr>balance = 1, positions = Map.empty, orders = [], trades = [],
       market_prices = [''BTCUSDT'' \<mapsto> 100]\<rparr>"
    by (simp add: client_tick_100_def update_market_price_def check_limit_orders_def
        init_client_def)
  have p: "market_prices client_tick_100 ''BTCUSDT'' = Some 100" by (simp add: c)
  have b: "balance client_tick_100 = 1" by (simp add: c)
  have f: "filter (\<lambda>od. resting ''BTCUSDT'' od \<and> crosses 95 od) (orders client_two_orders)
      = [buy_at_100, sell_at_90]"
    by (simp add: client_two_orders_def resting_def crosses_def buy_at_100_def sell_at_90_def
        SIDE_BUY_def SIDE_SELL_def)
  have b2: "balance client_two_orders = 10000"
    by (simp add: client_two_orders_def init_client_def)
  show ?thesis
    using p b
      C10_fill_charges_commission_only [of "''BTCUSDT''" SIDE_SELL 3 100 client_tick_100
        "''o2''" 8 "''t2''" True gen0 95]
      C10_fill_charges_commission_only [of "''BTCUSDT''" SIDE_SELL 3 100 client_two_orders
        "''o2''" 8 "''t2''" True gen0 95]
    by (simp add: f b2 buy_at_100_def sell_at_90_def)
qed

end
